theory Spec2Isabelle
  imports Complex_Main "HOL-Library.AList" "HOL-Library.Sublist"
begin

section \<open>JavaScript values\<close>

text \<open>
  The lookup tool of \<^verbatim>\<open>src/smart-connections-mcp-ts/dist/utils/cache-manager.d.ts\<close>
  (the part of that file after the \<^verbatim>\<open>SmartCacheManager\<close> declaration) is plain JavaScript.
  The records a backing collection returns are untyped objects, so they are modelled as
  association lists from property names to JavaScript values. Numbers are modelled as reals:
  \<^verbatim>\<open>NaN\<close>, the infinities and the rounding of IEEE doubles are outside the model.
\<close>

datatype jsval =
    JUndefined
  | JNull
  | JBool bool
  | JNum real
  | JStr string
  | JArr "jsval list"
  | JObj "(string \<times> jsval) list"

type_synonym obj = "(string \<times> jsval) list"

text \<open>ToBoolean: what \<^verbatim>\<open>||\<close>, \<^verbatim>\<open>if\<close> and \<^verbatim>\<open>!\<close> test.\<close>

fun truthy :: "jsval \<Rightarrow> bool" where
  "truthy JUndefined = False"
| "truthy JNull = False"
| "truthy (JBool b) = b"
| "truthy (JNum x) = (x \<noteq> 0)"
| "truthy (JStr s) = (s \<noteq> [])"
| "truthy (JArr xs) = True"
| "truthy (JObj kvs) = True"

text \<open>\<^verbatim>\<open>a || b\<close>: the left operand when it is truthy, the right one otherwise.\<close>

definition js_or :: "jsval \<Rightarrow> jsval \<Rightarrow> jsval" where
  "js_or a b = (if truthy a then a else b)"

text \<open>\<^verbatim>\<open>result.k\<close> on an object: a property that is absent reads as \<^verbatim>\<open>undefined\<close>.\<close>

definition get_prop :: "obj \<Rightarrow> string \<Rightarrow> jsval" where
  "get_prop r k = (case map_of r k of Some v \<Rightarrow> v | None \<Rightarrow> JUndefined)"

text \<open>
  \<^verbatim>\<open>v?.k\<close>: \<^verbatim>\<open>undefined\<close> when \<open>v\<close> is \<^verbatim>\<open>undefined\<close> or \<^verbatim>\<open>null\<close>,
  the property otherwise. The properties read this way (\<^verbatim>\<open>content\<close>) exist on no primitive
  value and on no array, so only an object can yield one.
\<close>

fun opt_member :: "jsval \<Rightarrow> string \<Rightarrow> jsval" where
  "opt_member (JObj kvs) k = get_prop kvs k"
| "opt_member v k = JUndefined"

text \<open>
  ToNumber, on the values arithmetic meets here. After \<^verbatim>\<open>r.score || r.sim || 0\<close> the value
  is truthy or the number \<open>0\<close>. A string, array or object in a score property would make
  \<^verbatim>\<open>sum + score\<close> a string concatenation; such records are outside the model, which reads
  them as \<open>0\<close>.
\<close>

fun to_number :: "jsval \<Rightarrow> real" where
  "to_number (JNum x) = x"
| "to_number (JBool b) = (if b then 1 else 0)"
| "to_number v = 0"

text \<open>\<^verbatim>\<open>{...result, k: v}\<close>: a copy of the object with property \<open>k\<close> set to \<open>v\<close>.\<close>

definition with_prop :: "string \<Rightarrow> jsval \<Rightarrow> obj \<Rightarrow> obj" where
  "with_prop k v r = AList.update k v r"

text \<open>
  \<^verbatim>\<open>xs.slice(0, end)\<close> for a number \<open>end\<close>: \<open>end\<close> is truncated towards zero, a negative
  value counts from the end of the array, and the result is clamped to the array.
  \<^verbatim>\<open>xs.slice(0, undefined)\<close> is the whole array.
\<close>

definition to_integer :: "real \<Rightarrow> int" where
  "to_integer x = (if 0 \<le> x then \<lfloor>x\<rfloor> else \<lceil>x\<rceil>)"

definition slice0 :: "'a list \<Rightarrow> real option \<Rightarrow> 'a list" where
  "slice0 xs e =
     (case e of
        None \<Rightarrow> xs
      | Some x \<Rightarrow>
          (let len = int (length xs);
               k = to_integer x;
               final = (if k < 0 then max (len + k) 0 else min k len)
           in take (nat final) xs))"

section \<open>The statistical filter\<close>

text \<open>
  \<^verbatim>\<open>get_nearest_until_next_dev_exceeds_std_dev(results)\<close>, lines 30 to 51.
  \<open>score_of\<close> is the callback \<^verbatim>\<open>r => r.score || r.sim || 0\<close>; the two \<^verbatim>\<open>reduce\<close>
  calls are left folds from \<open>0\<close>; the \<^verbatim>\<open>for\<close> loop is \<open>cutoff_loop\<close>, with the index \<open>i\<close>
  and the array \<open>filtered\<close> as arguments. The loop runs while \<^verbatim>\<open>i < results.length - 1\<close>;
  it is entered only for three or more results, so the subtraction does not go below zero.
\<close>

definition score_of :: "obj \<Rightarrow> jsval" where
  "score_of r = js_or (js_or (get_prop r ''score'') (get_prop r ''sim'')) (JNum 0)"

function cutoff_loop :: "obj list \<Rightarrow> real list \<Rightarrow> real \<Rightarrow> nat \<Rightarrow> obj list \<Rightarrow> obj list" where
  "cutoff_loop results scores stdDev i filtered =
     (if i < length results - 1 then
        (if \<bar>scores ! i - scores ! (i + 1)\<bar> > stdDev
         then filtered @ [results ! i]
         else cutoff_loop results scores stdDev (i + 1) (filtered @ [results ! i]))
      else filtered)"
  by pat_completeness auto
termination
  by (relation "measure (\<lambda>(results, scores, stdDev, i, filtered). length results - i)") auto

declare cutoff_loop.simps [simp del]

definition get_nearest_until_next_dev_exceeds_std_dev :: "obj list \<Rightarrow> obj list" where
  "get_nearest_until_next_dev_exceeds_std_dev results =
     (if length results \<le> 2 then results
      else
        (let scores = map (\<lambda>r. to_number (score_of r)) results;
             mean = foldl (\<lambda>sum score. sum + score) 0 scores / real (length scores);
             variance = foldl (\<lambda>sum score. sum + (score - mean)\<^sup>2) 0 scores / real (length scores);
             stdDev = sqrt variance;
             filtered = cutoff_loop results scores stdDev 0 []
         in if length filtered > 0 then filtered
            else take (min 10 (length results)) results))"

text \<open>
  The same loop with the comparison \<^verbatim>\<open>Math.abs(currentScore - nextScore) > stdDev\<close>
  squared on both sides, so that it runs on rational numbers: \<open>cutoff_loop_sqrt\<close> below
  shows that it is \<open>cutoff_loop\<close> at \<open>stdDev = sqrt variance\<close>.
\<close>

function cutoff_loop_sq :: "obj list \<Rightarrow> real list \<Rightarrow> real \<Rightarrow> nat \<Rightarrow> obj list \<Rightarrow> obj list" where
  "cutoff_loop_sq results scores variance i filtered =
     (if i < length results - 1 then
        (if (scores ! i - scores ! (i + 1))\<^sup>2 > variance
         then filtered @ [results ! i]
         else cutoff_loop_sq results scores variance (i + 1) (filtered @ [results ! i]))
      else filtered)"
  by pat_completeness auto
termination
  by (relation "measure (\<lambda>(results, scores, variance, i, filtered). length results - i)") auto

declare cutoff_loop_sq.simps [simp del]

section \<open>The plugin environment\<close>

text \<open>
  The tool reads \<^verbatim>\<open>this.plugin.env\<close>, its two collections \<^verbatim>\<open>smart_sources\<close> and
  \<^verbatim>\<open>smart_blocks\<close>, and calls their methods \<^verbatim>\<open>lookup\<close>, \<^verbatim>\<open>search\<close>, \<^verbatim>\<open>nearest\<close>
  and \<^verbatim>\<open>furthest\<close>. These are code of the host, not of this repository, so a collection is
  a record of the methods it has (\<open>None\<close>: the property is absent), and a method is any
  function that may change the state \<open>'w\<close> of the host and either throws, returns something
  that is not an array, or returns an array of records. \<^verbatim>\<open>get\<close> is the host's lookup of
  an entity by key, and \<open>items\<close> holds the keys of the collection's \<^verbatim>\<open>items\<close> object.

  The options a method receives are one record: \<^verbatim>\<open>search\<close> gets
  \<^verbatim>\<open>{keywords, limit, key_starts_with, exclude_key_starts_with}\<close>, \<^verbatim>\<open>nearest\<close> and
  \<^verbatim>\<open>furthest\<close> get the vector and \<^verbatim>\<open>{limit, key_starts_with, exclude_key_starts_with}\<close>,
  and \<^verbatim>\<open>lookup\<close> gets \<^verbatim>\<open>{hypotheticals}\<close> with the two key filters added when they are
  truthy, and no limit (\<open>opt_limit = None\<close>).
\<close>

record query_options =
  opt_limit :: "real option"
  opt_key_starts_with :: "string option"
  opt_exclude_key_starts_with :: "string option"

datatype call_result = Throws | NotAnArray | Results "obj list"

record 'w collection =
  lookup :: "(string list \<Rightarrow> query_options \<Rightarrow> 'w \<Rightarrow> call_result \<times> 'w) option"
  search :: "(string list \<Rightarrow> query_options \<Rightarrow> 'w \<Rightarrow> call_result \<times> 'w) option"
  nearest :: "(real list \<Rightarrow> query_options \<Rightarrow> 'w \<Rightarrow> call_result \<times> 'w) option"
  furthest :: "(real list \<Rightarrow> query_options \<Rightarrow> 'w \<Rightarrow> call_result \<times> 'w) option"
  get :: "(string \<Rightarrow> 'w \<Rightarrow> jsval \<times> 'w) option"
  items :: "string list option"

record 'w smart_env =
  smart_sources :: "'w collection option"
  smart_blocks :: "'w collection option"

record 'w plugin =
  env :: "'w smart_env option"
  vault_name :: string

section \<open>Requests and responses\<close>

text \<open>
  The arguments follow the tool's input schema (lines 62 to 118): a property is absent
  (\<open>None\<close>) or has the schema's type. \<open>search_filter\<close> is the caller's \<^verbatim>\<open>filter\<close> and
  also \<^verbatim>\<open>searchFilter\<close>, which has the same keys.
\<close>

record search_filter =
  limit :: "real option"
  key_starts_with :: "string option"
  exclude_key_starts_with :: "string option"
  collection :: "string option"

record args =
  hypotheticals :: "string list option"
  filter_arg :: "search_filter option"
  query_type :: "string option"
  keywords_arg :: "string list option"
  direct_vector :: "real list option"
  vector_operation :: "string option"

record search_params =
  sp_query_type :: string
  sp_hypotheticals :: "string list option"
  sp_keywords :: "string list option"
  sp_direct_vector :: "string option"
  sp_vector_operation :: string
  sp_filter :: search_filter

record plugin_info =
  pi_vault_name :: string
  sources_available :: bool
  blocks_available :: bool
  sources_count :: nat
  blocks_count :: nat

record response =
  results :: "obj list"
  count :: nat
  total_before_limit :: nat
  search_params :: search_params
  plugin_info :: plugin_info

text \<open>A thrown \<^verbatim>\<open>Error\<close>, with its message.\<close>

datatype error = Error string

definition EnvironmentNotReady :: error where
  "EnvironmentNotReady =
     Error ''Smart Connections environment not ready. Please wait for plugin to fully load.''"

text \<open>A number in a template literal: its decimal digits.\<close>

fun show_nat :: "nat \<Rightarrow> string" where
  "show_nat n =
     (if n < 10 then [char_of (48 + n)]
      else show_nat (n div 10) @ [char_of (48 + n mod 10)])"

declare show_nat.simps [simp del]

section \<open>Searching one collection\<close>

text \<open>
  \<^verbatim>\<open>searchCollection(collection, params, filter, collectionType)\<close>, lines 359 to 392; it is
  only called with \<^verbatim>\<open>params = { hypotheticals }\<close>. Everything is inside one \<^verbatim>\<open>try\<close>: a
  missing \<^verbatim>\<open>lookup\<close> method (a TypeError) and a throwing one both end in the \<^verbatim>\<open>catch\<close>,
  which returns the empty array.
\<close>

definition truthy_string :: "string option \<Rightarrow> string option" where
  "truthy_string s = (case s of Some t \<Rightarrow> (if t \<noteq> [] then Some t else None) | None \<Rightarrow> None)"

definition searchCollection ::
  "'w collection \<Rightarrow> string list \<Rightarrow> search_filter \<Rightarrow> string \<Rightarrow> 'w \<Rightarrow> obj list \<times> 'w" where
  "searchCollection c hyps flt collectionType w =
     (let lookupParams =
            \<lparr>opt_limit = None,
             opt_key_starts_with = truthy_string (key_starts_with flt),
             opt_exclude_key_starts_with = truthy_string (exclude_key_starts_with flt)\<rparr>
      in case lookup c of
           None \<Rightarrow> ([], w)
         | Some f \<Rightarrow>
             (case f hyps lookupParams w of
                (Throws, w') \<Rightarrow> ([], w')
              | (NotAnArray, w') \<Rightarrow> ([], w')
              | (Results rs, w') \<Rightarrow>
                  (map (with_prop ''collection_type'' (JStr collectionType)) rs, w')))"

section \<open>The three searches\<close>

text \<open>\<^verbatim>\<open>performVectorSearch(hypotheticals, searchFilter)\<close>, lines 216 to 245.\<close>

definition performVectorSearch ::
  "'w smart_env \<Rightarrow> string list \<Rightarrow> search_filter \<Rightarrow> 'w \<Rightarrow> obj list \<times> 'w" where
  "performVectorSearch e hyps searchFilter w =
     (let (results1, w1) =
            (if collection searchFilter = Some ''sources'' \<or> collection searchFilter = Some ''both''
             then (case smart_sources e of
                     Some c \<Rightarrow>
                       (let (sourceResults, w') = searchCollection c hyps searchFilter ''source'' w
                        in ([] @ sourceResults, w'))
                   | None \<Rightarrow> ([], w))
             else ([], w))
      in if collection searchFilter = Some ''blocks'' \<or> collection searchFilter = Some ''both''
         then (case smart_blocks e of
                 Some c \<Rightarrow>
                   (let (blockResults, w') = searchCollection c hyps searchFilter ''block'' w1
                    in (results1 @ blockResults, w'))
               | None \<Rightarrow> (results1, w1))
         else (results1, w1))"

text \<open>
  The options \<^verbatim>\<open>search\<close>, \<^verbatim>\<open>nearest\<close> and \<^verbatim>\<open>furthest\<close> receive: the limit and the
  two key filters of \<^verbatim>\<open>searchFilter\<close>, as they are.
\<close>

definition filter_options :: "search_filter \<Rightarrow> query_options" where
  "filter_options searchFilter =
     \<lparr>opt_limit = limit searchFilter,
      opt_key_starts_with = key_starts_with searchFilter,
      opt_exclude_key_starts_with = exclude_key_starts_with searchFilter\<rparr>"

text \<open>
  One of the two \<^verbatim>\<open>try\<close> blocks of \<^verbatim>\<open>performLexicalSearch\<close> (lines 252 to 267 and 271 to
  286): the collection and its \<^verbatim>\<open>search\<close> method are tested first; the call and the
  \<^verbatim>\<open>.map\<close> over its value are inside the \<^verbatim>\<open>try\<close>, so a throw, or a value without
  \<^verbatim>\<open>.map\<close>, leaves \<open>results\<close> as it was.
\<close>

definition lexical_attempt ::
  "'w collection option \<Rightarrow> string list \<Rightarrow> search_filter \<Rightarrow> string \<Rightarrow> obj list \<Rightarrow> 'w \<Rightarrow> obj list \<times> 'w" where
  "lexical_attempt coll kws searchFilter collectionType results0 w =
     (case coll of
        None \<Rightarrow> (results0, w)
      | Some c \<Rightarrow>
          (case search c of
             None \<Rightarrow> (results0, w)
           | Some f \<Rightarrow>
               (case f kws (filter_options searchFilter) w of
                  (Throws, w') \<Rightarrow> (results0, w')
                | (NotAnArray, w') \<Rightarrow> (results0, w')
                | (Results rs, w') \<Rightarrow>
                    (results0 @ map (with_prop ''collection_type'' (JStr collectionType)) rs, w'))))"

text \<open>
  The part of \<^verbatim>\<open>performLexicalSearch\<close> before the fallback (lines 248 to 287): the
  combined lexical result of the collections the filter selects.
\<close>

definition lexical_results ::
  "'w smart_env \<Rightarrow> string list \<Rightarrow> search_filter \<Rightarrow> 'w \<Rightarrow> obj list \<times> 'w" where
  "lexical_results e kws searchFilter w =
     (let (results1, w1) =
            (if collection searchFilter = Some ''sources'' \<or> collection searchFilter = Some ''both''
             then lexical_attempt (smart_sources e) kws searchFilter ''source'' [] w
             else ([], w))
      in if collection searchFilter = Some ''blocks'' \<or> collection searchFilter = Some ''both''
         then lexical_attempt (smart_blocks e) kws searchFilter ''block'' results1 w1
         else (results1, w1))"

text \<open>\<^verbatim>\<open>performLexicalSearch(keywords, searchFilter)\<close>, lines 247 to 296.\<close>

definition performLexicalSearch ::
  "'w smart_env \<Rightarrow> string list \<Rightarrow> search_filter \<Rightarrow> 'w \<Rightarrow> obj list \<times> 'w" where
  "performLexicalSearch e kws searchFilter w =
     (let (results1, w1) = lexical_results e kws searchFilter w
      in if length results1 = 0
         then performVectorSearch e kws searchFilter w1
         else (results1, w1))"

text \<open>\<^verbatim>\<open>getTargetCollection(searchFilter)\<close>, lines 352 to 357.\<close>

definition getTargetCollection :: "'w smart_env \<Rightarrow> search_filter \<Rightarrow> 'w collection option" where
  "getTargetCollection e searchFilter =
     (let coll = (case collection searchFilter of
                    Some s \<Rightarrow> (if s \<noteq> [] then s else ''sources'')
                  | None \<Rightarrow> ''sources'')
      in if coll = ''sources'' then smart_sources e
         else if coll = ''blocks'' then smart_blocks e
         else smart_sources e)"

text \<open>
  The \<^verbatim>\<open>try\<close> block of \<^verbatim>\<open>performDirectVectorSearch\<close> (lines 302 to 341). \<open>None\<close> is a
  throw, which the \<^verbatim>\<open>catch\<close> of the caller turns into the fallback: reading
  \<^verbatim>\<open>.nearest\<close> or \<^verbatim>\<open>.furthest\<close> of a target collection that is \<^verbatim>\<open>undefined\<close>, a
  method that throws, and \<^verbatim>\<open>results.map\<close> on a value that is not an array. \<open>vector_call\<close>
  is the body the three \<^verbatim>\<open>case\<close>s share: the \<^verbatim>\<open>nearest_to\<close> case (lines 322 to 332)
  repeats the \<^verbatim>\<open>nearest\<close> case (lines 304 to 312) word for word.
\<close>

definition vector_call ::
  "(real list \<Rightarrow> query_options \<Rightarrow> 'w \<Rightarrow> call_result \<times> 'w) option \<Rightarrow>
   real list \<Rightarrow> search_filter \<Rightarrow> 'w \<Rightarrow> obj list option \<times> 'w" where
  "vector_call method vec searchFilter w =
     (case method of
        None \<Rightarrow> (Some [], w)
      | Some f \<Rightarrow>
          (case f vec (filter_options searchFilter) w of
             (Throws, w') \<Rightarrow> (None, w')
           | (NotAnArray, w') \<Rightarrow> (None, w')
           | (Results rs, w') \<Rightarrow> (Some rs, w')))"

definition direct_vector_try ::
  "'w collection option \<Rightarrow> real list \<Rightarrow> string \<Rightarrow> search_filter \<Rightarrow> 'w \<Rightarrow> obj list option \<times> 'w" where
  "direct_vector_try targetCollection vec operation searchFilter w =
     (let collection_type =
            (if collection searchFilter = Some ''sources'' then ''source''
             else if collection searchFilter = Some ''blocks'' then ''block''
             else ''unknown'');
          (called, w') =
            (if operation = ''nearest'' then
               (case targetCollection of
                  None \<Rightarrow> (None, w)
                | Some c \<Rightarrow> vector_call (nearest c) vec searchFilter w)
             else if operation = ''furthest'' then
               (case targetCollection of
                  None \<Rightarrow> (None, w)
                | Some c \<Rightarrow> vector_call (furthest c) vec searchFilter w)
             else if operation = ''nearest_to'' then
               (case targetCollection of
                  None \<Rightarrow> (None, w)
                | Some c \<Rightarrow> vector_call (nearest c) vec searchFilter w)
             else (Some [], w))
      in (case called of
            None \<Rightarrow> (None, w')
          | Some rs \<Rightarrow> (Some (map (with_prop ''collection_type'' (JStr collection_type)) rs), w')))"

text \<open>
  \<^verbatim>\<open>performDirectVectorSearch(direct_vector, vector_operation, searchFilter)\<close>, lines 298
  to 350.
\<close>

definition performDirectVectorSearch ::
  "'w smart_env \<Rightarrow> real list \<Rightarrow> string \<Rightarrow> search_filter \<Rightarrow> 'w \<Rightarrow> obj list \<times> 'w" where
  "performDirectVectorSearch e vec operation searchFilter w =
     (case direct_vector_try (getTargetCollection e searchFilter) vec operation searchFilter w of
        (Some rs, w') \<Rightarrow> (rs, w')
      | (None, w') \<Rightarrow>
          performVectorSearch e
            [''vector search with '' @ show_nat (length vec) @ '' dimensions''] searchFilter w')"

section \<open>The tool's entry point\<close>

text \<open>
  \<^verbatim>\<open>{ limit: filter.limit || 10, collection: filter.collection || 'both', ...filter }\<close>, lines
  141 to 145: the spread comes last, so a property the caller's filter has wins
  over the default next to it, whatever its value; the default is used for an absent one.
\<close>

definition make_searchFilter :: "search_filter \<Rightarrow> search_filter" where
  "make_searchFilter flt =
     (let limit_default = (case limit flt of Some x \<Rightarrow> (if x \<noteq> 0 then x else 10) | None \<Rightarrow> 10);
          collection_default =
            (case collection flt of Some s \<Rightarrow> (if s \<noteq> [] then s else ''both'') | None \<Rightarrow> ''both'')
      in \<lparr>limit = (case limit flt of Some x \<Rightarrow> Some x | None \<Rightarrow> Some limit_default),
          key_starts_with = key_starts_with flt,
          exclude_key_starts_with = exclude_key_starts_with flt,
          collection =
            (case collection flt of Some s \<Rightarrow> Some s | None \<Rightarrow> Some collection_default)\<rparr>)"

text \<open>The object literal of lines 177 to 187, for one result.\<close>

definition formatResult :: "obj \<Rightarrow> obj" where
  "formatResult result =
     [(''key'', js_or (get_prop result ''key'') (get_prop result ''id'')),
      (''score'', js_or (js_or (get_prop result ''score'') (get_prop result ''sim'')) (JNum 0)),
      (''content'',
         js_or (js_or (js_or (get_prop result ''content'')
                             (opt_member (get_prop result ''data'') ''content''))
                      (get_prop result ''text''))
               (JStr [])),
      (''path'', js_or (get_prop result ''path'') (get_prop result ''key'')),
      (''type'', js_or (get_prop result ''collection_type'') (JStr ''unknown'')),
      (''breadcrumbs'', get_prop result ''breadcrumbs''),
      (''size'', get_prop result ''size''),
      (''last_modified'', get_prop result ''last_modified'')]"

text \<open>
  The destructuring of lines 126 to 133: a default replaces a property that is
  \<^verbatim>\<open>undefined\<close>. \<open>no_filter\<close> is the empty object, the default of \<^verbatim>\<open>filter\<close>.
\<close>

definition query_type_of :: "args \<Rightarrow> string" where
  "query_type_of a = (case query_type a of Some q \<Rightarrow> q | None \<Rightarrow> ''vector'')"

definition vector_operation_of :: "args \<Rightarrow> string" where
  "vector_operation_of a = (case vector_operation a of Some v \<Rightarrow> v | None \<Rightarrow> ''nearest'')"

definition no_filter :: search_filter where
  "no_filter = \<lparr>limit = None, key_starts_with = None,
                exclude_key_starts_with = None, collection = None\<rparr>"

definition filter_of :: "args \<Rightarrow> search_filter" where
  "filter_of a = (case filter_arg a of Some f \<Rightarrow> f | None \<Rightarrow> no_filter)"

definition searchFilter_of :: "args \<Rightarrow> search_filter" where
  "searchFilter_of a = make_searchFilter (filter_of a)"

text \<open>
  The routing of lines 148 to 166. An array is truthy also when it is empty, so
  \<^verbatim>\<open>keywords\<close> and \<^verbatim>\<open>direct_vector\<close> are tested for presence only; \<^verbatim>\<open>hypotheticals\<close>
  is tested for presence and for its length.
\<close>

definition route :: "'w smart_env \<Rightarrow> args \<Rightarrow> 'w \<Rightarrow> obj list \<times> 'w" where
  "route e a w =
     (case (if query_type_of a = ''lexical'' then keywords_arg a else None) of
        Some kws \<Rightarrow> performLexicalSearch e kws (searchFilter_of a) w
      | None \<Rightarrow>
          (case direct_vector a of
             Some vec \<Rightarrow>
               performDirectVectorSearch e vec (vector_operation_of a) (searchFilter_of a) w
           | None \<Rightarrow>
               (case (case hypotheticals a of
                        Some hs \<Rightarrow> (if length hs > 0 then Some hs else None)
                      | None \<Rightarrow> None) of
                  Some hs \<Rightarrow> performVectorSearch e hs (searchFilter_of a) w
                | None \<Rightarrow> ([], w))))"

text \<open>
  The branch the routing takes, by the conditions of lines 151, 155 and 159 in their
  order.
\<close>

datatype search_mode = Lexical | DirectVector | Vector | NoSearch

definition mode_of :: "args \<Rightarrow> search_mode" where
  "mode_of a =
     (if query_type_of a = ''lexical'' \<and> keywords_arg a \<noteq> None then Lexical
      else if direct_vector a \<noteq> None then DirectVector
      else if (case hypotheticals a of Some hs \<Rightarrow> length hs > 0 | None \<Rightarrow> False) then Vector
      else NoSearch)"

text \<open>Lines 168 to 171: the statistical filter runs on a result list that is not empty.\<close>

definition apply_statistical_filter :: "obj list \<Rightarrow> obj list" where
  "apply_statistical_filter results0 =
     (if length results0 > 0 then get_nearest_until_next_dev_exceeds_std_dev results0
      else results0)"

text \<open>
  \<^verbatim>\<open>execute(args)\<close>, lines 122 to 214. The \<^verbatim>\<open>catch\<close> of lines 210 to 213 rethrows what
  the \<^verbatim>\<open>try\<close> throws, but every call to the host inside it is caught further in, and the
  results that reach the filter and the formatting are objects, so nothing modelled here
  reaches it. The vault's name is a value of the plugin.
\<close>

definition execute :: "'w plugin \<Rightarrow> args \<Rightarrow> 'w \<Rightarrow> (error + response) \<times> 'w" where
  "execute p a w =
     (case env p of
        None \<Rightarrow> (Inl EnvironmentNotReady, w)
      | Some e \<Rightarrow>
          (let searchFilter = searchFilter_of a;
               (results0, w') = route e a w;
               results1 = apply_statistical_filter results0;
               results2 = slice0 results1 (limit searchFilter);
               formattedResults = map formatResult results2
           in (Inr \<lparr>results = formattedResults,
                    count = length formattedResults,
                    total_before_limit = length results2,
                    search_params =
                      \<lparr>sp_query_type = query_type_of a,
                       sp_hypotheticals = hypotheticals a,
                       sp_keywords = keywords_arg a,
                       sp_direct_vector =
                         (case direct_vector a of
                            Some vec \<Rightarrow> Some (''['' @ show_nat (length vec) @ '' dimensions]'')
                          | None \<Rightarrow> None),
                       sp_vector_operation = vector_operation_of a,
                       sp_filter = searchFilter\<rparr>,
                    plugin_info =
                      \<lparr>pi_vault_name = vault_name p,
                       sources_available = (smart_sources e \<noteq> None),
                       blocks_available = (smart_blocks e \<noteq> None),
                       sources_count =
                         (case smart_sources e of
                            Some c \<Rightarrow> (case items c of Some ks \<Rightarrow> length ks | None \<Rightarrow> 0)
                          | None \<Rightarrow> 0),
                       blocks_count =
                         (case smart_blocks e of
                            Some c \<Rightarrow> (case items c of Some ks \<Rightarrow> length ks | None \<Rightarrow> 0)
                          | None \<Rightarrow> 0)\<rparr>\<rparr>, w')))"

section \<open>Reading a response\<close>

definition results_of :: "(error + response) \<times> 'w \<Rightarrow> obj list option" where
  "results_of out = (case fst out of Inr r \<Rightarrow> Some (results r) | Inl err \<Rightarrow> None)"

text \<open>The scores of raw results, as the filter reads them, and of formatted results.\<close>

definition scores_of :: "obj list \<Rightarrow> real list" where
  "scores_of rs = map (\<lambda>r. to_number (score_of r)) rs"

definition result_scores :: "obj list \<Rightarrow> real list" where
  "result_scores rs = map (\<lambda>r. to_number (get_prop r ''score'')) rs"

text \<open>No score inversion: every score is at least the next one.\<close>

fun descending :: "real list \<Rightarrow> bool" where
  "descending (x # y # zs) = (y \<le> x \<and> descending (y # zs))"
| "descending zs = True"

section \<open>A host that records its calls\<close>

text \<open>
  A host whose state is the list of the calls it has received. Each collection holds a
  list of records; \<^verbatim>\<open>lookup\<close> returns all of them, \<^verbatim>\<open>search\<close>, \<^verbatim>\<open>nearest\<close> and
  \<^verbatim>\<open>furthest\<close> honour the limit they are given, and \<^verbatim>\<open>get\<close> resolves every key.
\<close>

datatype call =
    TextCall string string "string list" query_options
  | VectorCall string string "real list" query_options
  | GetCall string string

definition key_of :: "obj \<Rightarrow> string" where
  "key_of r = (case get_prop r ''key'' of JStr k \<Rightarrow> k | v \<Rightarrow> [])"

definition recording_collection :: "string \<Rightarrow> obj list \<Rightarrow> (call list) collection" where
  "recording_collection name stored =
     \<lparr>lookup = Some (\<lambda>hs opts w. (Results stored, w @ [TextCall name ''lookup'' hs opts])),
      search = Some (\<lambda>kws opts w.
                 (Results (slice0 stored (opt_limit opts)), w @ [TextCall name ''search'' kws opts])),
      nearest = Some (\<lambda>vec opts w.
                 (Results (slice0 stored (opt_limit opts)), w @ [VectorCall name ''nearest'' vec opts])),
      furthest = Some (\<lambda>vec opts w.
                 (Results (slice0 (rev stored) (opt_limit opts)),
                  w @ [VectorCall name ''furthest'' vec opts])),
      get = Some (\<lambda>k w. (JObj [(''key'', JStr k)], w @ [GetCall name k])),
      items = Some (map key_of stored)\<rparr>"

definition scored :: "string \<Rightarrow> real \<Rightarrow> obj" where
  "scored k s = [(''key'', JStr k), (''score'', JNum s)]"

definition recording_plugin :: "obj list \<Rightarrow> obj list \<Rightarrow> (call list) plugin" where
  "recording_plugin sources blocks =
     \<lparr>env = Some \<lparr>smart_sources = Some (recording_collection ''sources'' sources),
                  smart_blocks = Some (recording_collection ''blocks'' blocks)\<rparr>,
      vault_name = ''vault''\<rparr>"

text \<open>The request with no property.\<close>

definition no_args :: args where
  "no_args = \<lparr>hypotheticals = None, filter_arg = None, query_type = None,
              keywords_arg = None, direct_vector = None, vector_operation = None\<rparr>"

section \<open>The content rule in the specification's words\<close>

text \<open>
  The first non-empty value of an ordered list of aliases, or a default when there is
  none; and the aliases \<open>formatResult\<close> reads for \<^verbatim>\<open>content\<close>, in its order.
\<close>

fun first_truthy :: "jsval list \<Rightarrow> jsval \<Rightarrow> jsval" where
  "first_truthy [] d = d"
| "first_truthy (v # vs) d = (if truthy v then v else first_truthy vs d)"

definition content_aliases :: "obj \<Rightarrow> jsval list" where
  "content_aliases r =
     [get_prop r ''content'', opt_member (get_prop r ''data'') ''content'', get_prop r ''text'']"

section \<open>Terms of the claims\<close>



text \<open>The same request in Vector mode, with the keyword list as its hypotheticals.\<close>

definition vector_retry :: "args \<Rightarrow> string list \<Rightarrow> args" where
  "vector_retry a kws =
     a\<lparr>hypotheticals := Some kws, query_type := Some ''vector'',
       keywords_arg := None, direct_vector := None\<rparr>"

section \<open>Example hosts\<close>

text \<open>
  Ten records whose scores fall off twice: the filter keeps the first five of them, and
  the first two of the first three.
\<close>

definition ten_results :: "obj list" where
  "ten_results =
     [scored ''r0'' 1, scored ''r1'' (9/10), scored ''r2'' (6/10), scored ''r3'' (5/10),
      scored ''r4'' (45/100), scored ''r5'' 0, scored ''r6'' 0, scored ''r7'' 0,
      scored ''r8'' 0, scored ''r9'' 0]"

text \<open>A collection without \<^verbatim>\<open>search\<close>, and one whose \<^verbatim>\<open>search\<close> throws.\<close>

definition without_search :: "(call list) collection \<Rightarrow> (call list) collection" where
  "without_search c = c\<lparr>search := None\<rparr>"

definition throwing_search :: "string \<Rightarrow> (call list) collection \<Rightarrow> (call list) collection" where
  "throwing_search name c =
     c\<lparr>search := Some (\<lambda>kws opts w. (Throws, w @ [TextCall name ''search'' kws opts]))\<rparr>"

text \<open>
  An environment in which no keyword search works: the sources have no \<^verbatim>\<open>search\<close>
  and that of the blocks throws.
\<close>

definition env_without_keyword_search :: "(call list) smart_env" where
  "env_without_keyword_search =
     \<lparr>smart_sources =
        Some (without_search (recording_collection ''sources'' [scored ''a'' (9/10)])),
      smart_blocks =
        Some (throwing_search ''blocks'' (recording_collection ''blocks'' [scored ''b'' (8/10)]))\<rparr>"

definition plugin_without_keyword_search :: "(call list) plugin" where
  "plugin_without_keyword_search =
     \<lparr>env = Some env_without_keyword_search, vault_name = ''vault''\<rparr>"

text \<open>A plugin whose environment is missing, and one whose environment has no collection.\<close>

definition plugin_not_ready :: "(call list) plugin" where
  "plugin_not_ready = \<lparr>env = None, vault_name = ''vault''\<rparr>"

definition plugin_without_collections :: "(call list) plugin" where
  "plugin_without_collections =
     \<lparr>env = Some \<lparr>smart_sources = None, smart_blocks = None\<rparr>, vault_name = ''vault''\<rparr>"

section \<open>Properties of the statistical filter\<close>

lemma sqrt_less_abs_iff: "(sqrt v < \<bar>x\<bar>) = (v < x\<^sup>2)"
proof -
  have "\<bar>x\<bar> = sqrt (x\<^sup>2)" by simp
  then show ?thesis by (metis real_sqrt_less_iff)
qed

lemma cutoff_loop_sqrt:
  "cutoff_loop rs scores (sqrt v) i filtered = cutoff_loop_sq rs scores v i filtered"
proof (induction rs scores v i filtered rule: cutoff_loop_sq.induct)
  case (1 rs scores v i filtered)
  show ?case
  proof (cases "i < length rs - 1")
    case False
    then show ?thesis by (simp add: cutoff_loop.simps cutoff_loop_sq.simps)
  next
    case in_range: True
    show ?thesis
    proof (cases "(scores ! i - scores ! (i + 1))\<^sup>2 > v")
      case True
      with in_range show ?thesis
        by (simp add: cutoff_loop.simps [of rs scores "sqrt v" i] cutoff_loop_sq.simps [of rs scores v i]
            sqrt_less_abs_iff)
    next
      case False
      with in_range "1.IH" show ?thesis
        by (simp add: cutoff_loop.simps [of rs scores "sqrt v" i] cutoff_loop_sq.simps [of rs scores v i]
            sqrt_less_abs_iff)
    qed
  qed
qed

text \<open>The filter as it is run: the definition, with the loop over squares.\<close>

lemma get_nearest_until_next_dev_exceeds_std_dev_code [code]:
  "get_nearest_until_next_dev_exceeds_std_dev rs =
     (if length rs \<le> 2 then rs
      else
        (let scores = map (\<lambda>r. to_number (score_of r)) rs;
             mean = foldl (\<lambda>sum score. sum + score) 0 scores / real (length scores);
             variance = foldl (\<lambda>sum score. sum + (score - mean)\<^sup>2) 0 scores / real (length scores);
             filtered = cutoff_loop_sq rs scores variance 0 []
         in if length filtered > 0 then filtered
            else take (min 10 (length rs)) rs))"
  by (simp add: get_nearest_until_next_dev_exceeds_std_dev_def Let_def cutoff_loop_sqrt)

lemma cutoff_loop_shape:
  "\<exists>k. k \<le> length rs - 1 - i \<and>
       cutoff_loop rs scores stdDev i filtered = filtered @ take k (drop i rs)"
proof (induction rs scores stdDev i filtered rule: cutoff_loop.induct)
  case (1 rs scores stdDev i filtered)
  show ?case
  proof (cases "i < length rs - 1")
    case False
    then have "cutoff_loop rs scores stdDev i filtered = filtered @ take 0 (drop i rs)"
      by (simp add: cutoff_loop.simps)
    then show ?thesis by blast
  next
    case in_range: True
    then have here: "take (Suc 0) (drop i rs) = [rs ! i]"
      by (simp add: Cons_nth_drop_Suc [symmetric])
    show ?thesis
    proof (cases "\<bar>scores ! i - scores ! (i + 1)\<bar> > stdDev")
      case True
      with in_range have "cutoff_loop rs scores stdDev i filtered = filtered @ take (Suc 0) (drop i rs)"
        by (simp add: cutoff_loop.simps here)
      moreover from in_range have "Suc 0 \<le> length rs - 1 - i" by simp
      ultimately show ?thesis by blast
    next
      case False
      with in_range "1.IH" obtain k where
        k: "k \<le> length rs - 1 - (i + 1)"
        and rec: "cutoff_loop rs scores stdDev (i + 1) (filtered @ [rs ! i])
                    = (filtered @ [rs ! i]) @ take k (drop (i + 1) rs)"
        by blast
      from in_range have "take (Suc k) (drop i rs) = rs ! i # take k (drop (i + 1) rs)"
        by (simp add: Cons_nth_drop_Suc [symmetric])
      with in_range False rec
      have "cutoff_loop rs scores stdDev i filtered = filtered @ take (Suc k) (drop i rs)"
        by (simp add: cutoff_loop.simps)
      moreover from in_range k have "Suc k \<le> length rs - 1 - i" by simp
      ultimately show ?thesis by blast
    qed
  qed
qed

lemma cutoff_loop_grows:
  "i < length rs - 1 \<Longrightarrow> length filtered < length (cutoff_loop rs scores stdDev i filtered)"
proof (induction rs scores stdDev i filtered rule: cutoff_loop.induct)
  case (1 rs scores stdDev i filtered)
  show ?case
  proof (cases "\<bar>scores ! i - scores ! (i + 1)\<bar> > stdDev")
    case True
    with "1.prems" show ?thesis by (simp add: cutoff_loop.simps [of rs scores stdDev i])
  next
    case False
    show ?thesis
    proof (cases "i + 1 < length rs - 1")
      case True
      with "1.IH" "1.prems" False
      have "length (filtered @ [rs ! i]) < length (cutoff_loop rs scores stdDev (i + 1) (filtered @ [rs ! i]))"
        by blast
      with "1.prems" False show ?thesis by (simp add: cutoff_loop.simps [of rs scores stdDev i])
    next
      case last: False
      then have "cutoff_loop rs scores stdDev (i + 1) (filtered @ [rs ! i]) = filtered @ [rs ! i]"
        by (subst cutoff_loop.simps) simp
      with "1.prems" False show ?thesis by (simp add: cutoff_loop.simps [of rs scores stdDev i])
    qed
  qed
qed

lemma filter_shape:
  assumes "2 < length rs"
  shows "\<exists>k. 0 < k \<and> k < length rs \<and> get_nearest_until_next_dev_exceeds_std_dev rs = take k rs"
proof -
  define scores where "scores = map (\<lambda>r. to_number (score_of r)) rs"
  define mean where "mean = foldl (\<lambda>sum score. sum + score) 0 scores / real (length scores)"
  define variance where
    "variance = foldl (\<lambda>sum score. sum + (score - mean)\<^sup>2) 0 scores / real (length scores)"
  define filtered where "filtered = cutoff_loop rs scores (sqrt variance) 0 []"
  from cutoff_loop_shape [of rs 0 scores "sqrt variance" "[]"]
  obtain k where k: "k \<le> length rs - 1" and eq: "filtered = take k rs"
    by (auto simp: filtered_def)
  from assms cutoff_loop_grows [of 0 rs "[]" scores "sqrt variance"]
  have "0 < length filtered" by (simp add: filtered_def)
  with eq have "0 < k" by (cases k) auto
  moreover from k assms have "k < length rs" by simp
  moreover from assms \<open>0 < length filtered\<close>
  have "get_nearest_until_next_dev_exceeds_std_dev rs = filtered"
    by (simp add: get_nearest_until_next_dev_exceeds_std_dev_def Let_def
        filtered_def variance_def mean_def scores_def)
  ultimately show ?thesis using eq by blast
qed

lemma filter_short_list:
  "length rs \<le> 2 \<Longrightarrow> get_nearest_until_next_dev_exceeds_std_dev rs = rs"
  by (simp add: get_nearest_until_next_dev_exceeds_std_dev_def)

lemma filter_prefix: "prefix (get_nearest_until_next_dev_exceeds_std_dev rs) rs"
proof (cases "2 < length rs")
  case True
  from filter_shape [OF True] show ?thesis by (auto simp: take_is_prefix)
next
  case False
  then show ?thesis by (simp add: get_nearest_until_next_dev_exceeds_std_dev_def)
qed

lemma filter_never_keeps_the_last:
  "2 < length rs \<Longrightarrow> length (get_nearest_until_next_dev_exceeds_std_dev rs) < length rs"
  using filter_shape [of rs] by auto

lemma apply_statistical_filter_prefix: "prefix (apply_statistical_filter rs) rs"
  by (simp add: apply_statistical_filter_def filter_prefix)

lemma slice0_prefix: "prefix (slice0 xs e) xs"
  by (cases e) (simp_all add: slice0_def Let_def take_is_prefix)


lemma descending_append: "descending (xs @ ys) \<Longrightarrow> descending xs"
  by (induction xs rule: descending.induct) auto

lemma descending_prefix: "prefix ys xs \<Longrightarrow> descending xs \<Longrightarrow> descending ys"
  by (auto simp: prefix_def dest: descending_append)

lemma score_of_not_falsy: "score_of r = JNum 0 \<or> truthy (score_of r)"
  by (simp add: score_of_def js_or_def)

lemma formatResult_score: "get_prop (formatResult r) ''score'' = score_of r"
  by (simp add: formatResult_def get_prop_def score_of_def)

lemma result_scores_formatResult: "result_scores (map formatResult rs) = scores_of rs"
  by (simp add: result_scores_def scores_of_def formatResult_score)

lemma execute_ready:
  assumes "env p = Some e"
  shows "\<exists>r. execute p a w = (Inr r, snd (route e a w))
          \<and> results r = map formatResult
               (slice0 (apply_statistical_filter (fst (route e a w))) (limit (searchFilter_of a)))
          \<and> count r = length (results r)
          \<and> total_before_limit r =
               length (slice0 (apply_statistical_filter (fst (route e a w))) (limit (searchFilter_of a)))
          \<and> sp_filter (search_params r) = searchFilter_of a"
  using assms by (simp add: execute_def Let_def split: prod.splits)

section \<open>The search each mode runs\<close>

text \<open>
  What lines 148 to 166 do: the lexical search when \<^verbatim>\<open>query_type\<close> is \<^verbatim>\<open>lexical\<close> and
  \<^verbatim>\<open>keywords\<close> is present, empty or not; else the direct vector search when
  \<^verbatim>\<open>direct_vector\<close> is present; else the vector search when \<^verbatim>\<open>hypotheticals\<close> is present
  and not empty; else no search and no result.
\<close>

lemma route_lexical:
  "mode_of a = Lexical \<Longrightarrow> keywords_arg a = Some kws \<Longrightarrow>
   route e a w = performLexicalSearch e kws (searchFilter_of a) w"
  by (auto simp: route_def mode_of_def split: if_splits)

lemma route_direct_vector:
  "mode_of a = DirectVector \<Longrightarrow> direct_vector a = Some vec \<Longrightarrow>
   route e a w = performDirectVectorSearch e vec (vector_operation_of a) (searchFilter_of a) w"
  by (auto simp: route_def mode_of_def split: if_splits)

lemma route_vector:
  "mode_of a = Vector \<Longrightarrow> hypotheticals a = Some hs \<Longrightarrow>
   route e a w = performVectorSearch e hs (searchFilter_of a) w"
  by (auto simp: route_def mode_of_def split: if_splits)

lemma route_nothing:
  "mode_of a = NoSearch \<Longrightarrow> route e a w = ([], w)"
  by (auto simp: route_def mode_of_def split: if_splits option.splits)

text \<open>The mode is \<open>Lexical\<close> also when the keyword list is empty.\<close>

lemma mode_of_lexical:
  "(mode_of a = Lexical) = (query_type a = Some ''lexical'' \<and> keywords_arg a \<noteq> None)"
  by (auto simp: mode_of_def query_type_of_def split: option.splits)

section \<open>Running the model\<close>

text \<open>The equations that evaluate the model on a concrete request.\<close>

lemmas run_defs =
  ten_results_def without_search_def throwing_search_def plugin_not_ready_def
  plugin_without_collections_def vector_retry_def
  env_without_keyword_search_def plugin_without_keyword_search_def
  results_of_def execute_def recording_plugin_def no_args_def no_filter_def
  searchFilter_of_def filter_of_def make_searchFilter_def route_def query_type_of_def
  mode_of_def key_of_def
  vector_operation_of_def performVectorSearch_def searchCollection_def
  performLexicalSearch_def lexical_results_def lexical_attempt_def filter_options_def
  performDirectVectorSearch_def direct_vector_try_def vector_call_def getTargetCollection_def
  recording_collection_def truthy_string_def apply_statistical_filter_def
  get_nearest_until_next_dev_exceeds_std_dev_code cutoff_loop_sq.simps
  slice0_def to_integer_def formatResult_def scored_def with_prop_def get_prop_def js_or_def
  result_scores_def scores_of_def score_of_def Let_def

text \<open>
  The example of the specification: the gap from \<open>0.83\<close> to \<open>0.40\<close> is the first one above
  the standard deviation, and the list is cut there.
\<close>

lemma filter_cuts_at_first_cliff:
  "get_nearest_until_next_dev_exceeds_std_dev
     [scored ''a'' (9/10), scored ''b'' (85/100), scored ''c'' (83/100),
      scored ''d'' (40/100), scored ''e'' (35/100)]
   = [scored ''a'' (9/10), scored ''b'' (85/100), scored ''c'' (83/100)]"
  by (simp add: run_defs power2_eq_square)



section \<open>C1: merging the two collections\<close>

text \<open>
  With the filter's collection \<^verbatim>\<open>both\<close>, \<^verbatim>\<open>performVectorSearch\<close> appends the blocks'
  results to the sources' results, and the lexical attempts do the same.
\<close>

lemma performVectorSearch_both:
  assumes "collection searchFilter = Some ''both''"
    and "smart_sources e = Some cs" and "smart_blocks e = Some cb"
    and "searchCollection cs hs searchFilter ''source'' w = (S, w1)"
    and "searchCollection cb hs searchFilter ''block'' w1 = (B, w2)"
  shows "performVectorSearch e hs searchFilter w = (S @ B, w2)"
  using assms by (simp add: performVectorSearch_def)

lemma lexical_results_both:
  assumes "collection searchFilter = Some ''both''"
    and "lexical_attempt (smart_sources e) kws searchFilter ''source'' [] w = (S, w1)"
    and "lexical_attempt (smart_blocks e) kws searchFilter ''block'' [] w1 = (B, w2)"
  shows "lexical_results e kws searchFilter w = (S @ B, w2)"
  using assms
  by (auto simp: lexical_results_def lexical_attempt_def split: option.splits call_result.splits prod.splits)

text \<open>
  C1, as amended. C1 says that the merged list is re-ranked by descending score before the
  filter and the limit, so that the returned list has no score inversion. Nothing in the
  tool sorts. With both collections, in Vector mode and in Lexical mode (when the lexical
  attempts find something), the merged list is the sources' results followed by the
  blocks' results, each in the order its collection returned it; the filter and the limit
  keep a prefix of that list, and the returned list is descending by score whenever the
  merged list already is.
\<close>

theorem both_collections_concatenated_unranked:
  assumes ready: "env p = Some e"
    and both: "collection (searchFilter_of a) = Some ''both''"
    and merged:
      "(mode_of a = Vector \<and> hypotheticals a = Some qs
          \<and> smart_sources e = Some cs \<and> smart_blocks e = Some cb
          \<and> searchCollection cs qs (searchFilter_of a) ''source'' w = (S, w1)
          \<and> searchCollection cb qs (searchFilter_of a) ''block'' w1 = (B, w2))
       \<or> (mode_of a = Lexical \<and> keywords_arg a = Some qs \<and> S @ B \<noteq> []
          \<and> lexical_attempt (smart_sources e) qs (searchFilter_of a) ''source'' [] w = (S, w1)
          \<and> lexical_attempt (smart_blocks e) qs (searchFilter_of a) ''block'' [] w1 = (B, w2))"
  shows "\<exists>r. execute p a w = (Inr r, w2)
           \<and> results r = map formatResult
                (slice0 (apply_statistical_filter (S @ B)) (limit (searchFilter_of a)))
           \<and> prefix (results r) (map formatResult (S @ B))
           \<and> (descending (scores_of (S @ B)) \<longrightarrow> descending (result_scores (results r)))"
proof -
  from merged have route: "route e a w = (S @ B, w2)"
  proof (elim disjE conjE)
    assume "mode_of a = Vector" "hypotheticals a = Some qs"
      "smart_sources e = Some cs" "smart_blocks e = Some cb"
      "searchCollection cs qs (searchFilter_of a) ''source'' w = (S, w1)"
      "searchCollection cb qs (searchFilter_of a) ''block'' w1 = (B, w2)"
    then show ?thesis
      by (simp add: route_vector performVectorSearch_both [OF both])
  next
    assume "mode_of a = Lexical" "keywords_arg a = Some qs" "S @ B \<noteq> []"
      "lexical_attempt (smart_sources e) qs (searchFilter_of a) ''source'' [] w = (S, w1)"
      "lexical_attempt (smart_blocks e) qs (searchFilter_of a) ''block'' [] w1 = (B, w2)"
    then show ?thesis
      by (auto simp: route_lexical performLexicalSearch_def lexical_results_both [OF both])
  qed
  from execute_ready [OF ready, of a w] route obtain r where
    r: "execute p a w = (Inr r, w2)"
      "results r = map formatResult
         (slice0 (apply_statistical_filter (S @ B)) (limit (searchFilter_of a)))"
    by auto
  have kept: "prefix (slice0 (apply_statistical_filter (S @ B)) (limit (searchFilter_of a))) (S @ B)"
    using slice0_prefix apply_statistical_filter_prefix prefix_order.trans by blast
  then have pre: "prefix (results r) (map formatResult (S @ B))"
    unfolding r(2) by (rule map_mono_prefix)
  have "descending (result_scores (results r))" if "descending (scores_of (S @ B))"
  proof -
    from kept have "prefix (scores_of (slice0 (apply_statistical_filter (S @ B)) (limit (searchFilter_of a))))
        (scores_of (S @ B))"
      unfolding scores_of_def by (rule map_mono_prefix)
    with that show ?thesis
      by (simp add: r result_scores_formatResult descending_prefix)
  qed
  with r pre show ?thesis by blast
qed

text \<open>
  The theorem at a request whose merged list is already descending: the sources return a
  result of score \<open>0.9\<close>, the blocks one of score \<open>0.8\<close>.
\<close>

theorem both_collections_concatenated_unranked_witness:
  "(\<exists>r. execute (recording_plugin [scored ''a'' (9/10)] [scored ''b'' (8/10)])
           (no_args\<lparr>hypotheticals := Some [''q'']\<rparr>) []
         = (Inr r, [TextCall ''sources'' ''lookup'' [''q'']
                      \<lparr>opt_limit = None, opt_key_starts_with = None, opt_exclude_key_starts_with = None\<rparr>,
                    TextCall ''blocks'' ''lookup'' [''q'']
                      \<lparr>opt_limit = None, opt_key_starts_with = None, opt_exclude_key_starts_with = None\<rparr>])
       \<and> result_scores (results r) = [9/10, 8/10]
       \<and> descending (result_scores (results r)))"
proof -
  let ?p = "recording_plugin [scored ''a'' (9/10)] [scored ''b'' (8/10)]"
  let ?a = "no_args\<lparr>hypotheticals := Some [''q'']\<rparr>"
  let ?cs = "recording_collection ''sources'' [scored ''a'' (9/10)]"
  let ?cb = "recording_collection ''blocks'' [scored ''b'' (8/10)]"
  let ?e = "\<lparr>smart_sources = Some ?cs, smart_blocks = Some ?cb\<rparr>"
  let ?opts = "\<lparr>opt_limit = None, opt_key_starts_with = None, opt_exclude_key_starts_with = None\<rparr>"
  let ?S = "[with_prop ''collection_type'' (JStr ''source'') (scored ''a'' (9/10))]"
  let ?B = "[with_prop ''collection_type'' (JStr ''block'') (scored ''b'' (8/10))]"
  have "\<exists>r. execute ?p ?a [] = (Inr r, [TextCall ''sources'' ''lookup'' [''q''] ?opts,
                                       TextCall ''blocks'' ''lookup'' [''q''] ?opts])
           \<and> results r = map formatResult
                (slice0 (apply_statistical_filter (?S @ ?B)) (limit (searchFilter_of ?a)))
           \<and> prefix (results r) (map formatResult (?S @ ?B))
           \<and> (descending (scores_of (?S @ ?B)) \<longrightarrow> descending (result_scores (results r)))"
    by (rule both_collections_concatenated_unranked [where e = ?e and qs = "[''q'']" and cs = ?cs and cb = ?cb
          and ?w1.0 = "[TextCall ''sources'' ''lookup'' [''q''] ?opts]"])
       (simp_all add: run_defs)
  then obtain r where r: "execute ?p ?a [] = (Inr r, [TextCall ''sources'' ''lookup'' [''q''] ?opts,
                                       TextCall ''blocks'' ''lookup'' [''q''] ?opts])"
     "results r = map formatResult
                (slice0 (apply_statistical_filter (?S @ ?B)) (limit (searchFilter_of ?a)))"
     "descending (scores_of (?S @ ?B)) \<longrightarrow> descending (result_scores (results r))"
    by blast
  have "result_scores (results r) = [9/10, 8/10]"
    unfolding r(2) by (simp add: run_defs)
  moreover have "descending (scores_of (?S @ ?B))" by (simp add: run_defs)
  ultimately show ?thesis using r by blast
qed

text \<open>
  C1 as stated fails: when the sources return a result of score \<open>0.1\<close> and the blocks one
  of score \<open>0.9\<close>, the returned list has the scores \<open>0.1, 0.9\<close>, an inversion.
\<close>

theorem merged_results_keep_collection_order:
  "map_option result_scores
     (results_of (execute (recording_plugin [scored ''a'' (1/10)] [scored ''b'' (9/10)])
        (no_args\<lparr>hypotheticals := Some [''q'']\<rparr>) []))
   = Some [1/10, 9/10]
   \<and> \<not> descending [1/10, 9/10]"
  by (simp add: run_defs)

section \<open>C2: the filter on a list without a cliff\<close>

text \<open>
  C2 says that for a list of three or more results in which no gap between neighbours
  exceeds the standard deviation, such as four results of score \<open>0.5\<close>, the filter returns
  the whole list, the last element included. The loop of lines 41 to 48 stops at
  \<^verbatim>\<open>i < results.length - 1\<close> and nothing pushes the last element afterwards: on four
  results of score \<open>0.5\<close> the filter returns the first three. (\<open>filter_never_keeps_the_last\<close>
  above: on three or more results the filter always returns fewer than it got.)
\<close>

theorem equal_scores_lose_the_last:
  "get_nearest_until_next_dev_exceeds_std_dev
     [scored ''a'' (1/2), scored ''b'' (1/2), scored ''c'' (1/2), scored ''d'' (1/2)]
   = [scored ''a'' (1/2), scored ''b'' (1/2), scored ''c'' (1/2)]"
  by (simp add: run_defs)

section \<open>C3: the content of a formatted result\<close>

text \<open>
  C3, as amended. C3 says that \<^verbatim>\<open>content\<close> is the first non-empty value among the
  recognized aliases, the raw, source and block content aliases included, and that a flag
  \<^verbatim>\<open>content_missing\<close> tells whether one was found. The object literal of lines 177 to 187
  reads three aliases, \<^verbatim>\<open>result.content\<close>, \<^verbatim>\<open>result.data?.content\<close> and
  \<^verbatim>\<open>result.text\<close>, and has no property \<^verbatim>\<open>content_missing\<close>. What holds: \<^verbatim>\<open>content\<close>
  is the first truthy value (for a string: non-empty) of these three, in this order, as it
  is, and the empty string when none of them is truthy; a formatted result has no
  \<^verbatim>\<open>content_missing\<close>.
\<close>

theorem content_is_first_of_three_aliases:
  "get_prop (formatResult r) ''content'' = first_truthy (content_aliases r) (JStr [])
   \<and> get_prop (formatResult r) ''content_missing'' = JUndefined"
  by (simp add: formatResult_def content_aliases_def js_or_def get_prop_def)

text \<open>
  A nested \<^verbatim>\<open>data.content\<close> is used when the direct \<^verbatim>\<open>content\<close> is the empty string.
\<close>

lemma nested_content_is_used:
  "get_prop (formatResult [(''content'', JStr []), (''data'', JObj [(''content'', JStr ''nested'')])])
     ''content'' = JStr ''nested''"
  by (simp add: formatResult_def js_or_def get_prop_def)

text \<open>
  C3 as stated fails: for the record with no property, \<^verbatim>\<open>content\<close> is the empty string
  and \<^verbatim>\<open>content_missing\<close> is not \<^verbatim>\<open>true\<close> but \<^verbatim>\<open>undefined\<close>; for a record with
  \<^verbatim>\<open>content\<close> it is not \<^verbatim>\<open>false\<close> but \<^verbatim>\<open>undefined\<close>; and text under
  \<^verbatim>\<open>raw_content\<close> only is dropped.
\<close>

theorem no_content_missing_flag:
  "get_prop (formatResult []) ''content'' = JStr []
   \<and> get_prop (formatResult []) ''content_missing'' = JUndefined
   \<and> get_prop (formatResult [(''content'', JStr ''some text'')]) ''content_missing'' = JUndefined
   \<and> get_prop (formatResult [(''raw_content'', JStr ''some text'')]) ''content'' = JStr []"
  by (simp add: formatResult_def js_or_def get_prop_def)

section \<open>C4: the choice of the search\<close>

text \<open>
  C4 says that a lexical hint selects the lexical search only when \<^verbatim>\<open>keywords\<close> is not
  empty, and that the next rules apply otherwise. Line 151 tests \<^verbatim>\<open>keywords\<close> for
  truthiness, and an empty array is truthy: the request with \<^verbatim>\<open>query_type: "lexical"\<close>,
  \<^verbatim>\<open>keywords: []\<close> and a \<^verbatim>\<open>direct_vector\<close> runs the lexical search
  (\<open>mode_of_lexical\<close> above, for every request). The host receives \<^verbatim>\<open>search\<close> with no
  keyword on both collections and never \<^verbatim>\<open>nearest\<close>, and the results are those of
  \<^verbatim>\<open>search\<close>.
\<close>

theorem empty_keywords_still_route_to_lexical:
  "mode_of (no_args\<lparr>query_type := Some ''lexical'', keywords_arg := Some [],
                    direct_vector := Some [1/10, 2/10]\<rparr>) = Lexical
   \<and> snd (execute (recording_plugin [scored ''a'' (9/10)] [scored ''b'' (8/10)])
     (no_args\<lparr>query_type := Some ''lexical'', keywords_arg := Some [],
              direct_vector := Some [1/10, 2/10]\<rparr>) [])
   = [TextCall ''sources'' ''search'' []
         \<lparr>opt_limit = Some 10, opt_key_starts_with = None, opt_exclude_key_starts_with = None\<rparr>,
      TextCall ''blocks'' ''search'' []
         \<lparr>opt_limit = Some 10, opt_key_starts_with = None, opt_exclude_key_starts_with = None\<rparr>]
   \<and> map_option result_scores
        (results_of (execute (recording_plugin [scored ''a'' (9/10)] [scored ''b'' (8/10)])
           (no_args\<lparr>query_type := Some ''lexical'', keywords_arg := Some [],
              direct_vector := Some [1/10, 2/10]\<rparr>) []))
      = Some [9/10, 8/10]"
  by (simp add: run_defs)

section \<open>C5: where the limit is applied\<close>






section \<open>C6: the environment that is not ready\<close>
















section \<open>C7: the fallback of the lexical search\<close>

text \<open>
  A lexical attempt leaves the results as they were when the collection or its
  \<^verbatim>\<open>search\<close> is missing, and when \<^verbatim>\<open>search\<close> throws.
\<close>

lemma lexical_attempt_unsupported:
  "coll = None \<or> (\<exists>c. coll = Some c \<and> search c = None) \<Longrightarrow>
   lexical_attempt coll kws searchFilter ct rs0 w = (rs0, w)"
  by (auto simp: lexical_attempt_def)

lemma lexical_attempt_throws:
  "coll = Some c \<Longrightarrow> search c = Some f \<Longrightarrow> f kws (filter_options searchFilter) w = (Throws, w') \<Longrightarrow>
   lexical_attempt coll kws searchFilter ct rs0 w = (rs0, w')"
  by (simp add: lexical_attempt_def)

lemma searchFilter_of_vector_retry: "searchFilter_of (vector_retry a kws) = searchFilter_of a"
  by (simp add: searchFilter_of_def filter_of_def vector_retry_def)

lemma route_vector_retry:
  "kws \<noteq> [] \<Longrightarrow> route e (vector_retry a kws) w = performVectorSearch e kws (searchFilter_of a) w"
  by (simp add: route_def vector_retry_def query_type_of_def searchFilter_of_def filter_of_def)

text \<open>
  C7: for a request in Lexical mode with a non-empty keyword list, when the
  combined lexical result of the collections is empty, \<^verbatim>\<open>execute\<close> returns a response and
  no error, and the response has the results, in the host state the calls, of the vector
  search with the keyword list as hypotheticals, run after the lexical attempts: the same
  as \<^verbatim>\<open>execute\<close> on the request in Vector mode with these hypotheticals.
\<close>

theorem empty_lexical_result_retries_as_vector:
  assumes ready: "env p = Some e"
    and lexical: "mode_of a = Lexical" "keywords_arg a = Some kws" "kws \<noteq> []"
    and no_match: "lexical_results e kws (searchFilter_of a) w = ([], w1)"
  shows "\<exists>r r' w'. execute p a w = (Inr r, w')
           \<and> performVectorSearch e kws (searchFilter_of a) w1 = (fst (route e a w), w')
           \<and> execute p (vector_retry a kws) w1 = (Inr r', w')
           \<and> results r = results r' \<and> count r = count r'
           \<and> total_before_limit r = total_before_limit r'"
proof -
  have "performLexicalSearch e kws (searchFilter_of a) w
      = performVectorSearch e kws (searchFilter_of a) w1"
    unfolding performLexicalSearch_def no_match by simp
  with lexical have same: "route e a w = performVectorSearch e kws (searchFilter_of a) w1"
    by (simp add: route_lexical)
  with lexical(3) have retry: "route e (vector_retry a kws) w1 = route e a w"
    by (simp add: route_vector_retry)
  from execute_ready [OF ready, of a w] obtain r where
    r: "execute p a w = (Inr r, snd (route e a w))"
       "results r = map formatResult
          (slice0 (apply_statistical_filter (fst (route e a w))) (limit (searchFilter_of a)))"
       "count r = length (results r)"
       "total_before_limit r =
          length (slice0 (apply_statistical_filter (fst (route e a w))) (limit (searchFilter_of a)))"
    by blast
  from execute_ready [OF ready, of "vector_retry a kws" w1] retry obtain r' where
    r': "execute p (vector_retry a kws) w1 = (Inr r', snd (route e a w))"
       "results r' = map formatResult
          (slice0 (apply_statistical_filter (fst (route e a w))) (limit (searchFilter_of a)))"
       "count r' = length (results r')"
       "total_before_limit r' =
          length (slice0 (apply_statistical_filter (fst (route e a w))) (limit (searchFilter_of a)))"
    by (auto simp: searchFilter_of_vector_retry)
  from same have "performVectorSearch e kws (searchFilter_of a) w1 = (fst (route e a w), snd (route e a w))"
    by simp
  with r r' show ?thesis by metis
qed

text \<open>
  The theorem on an environment where the sources have no \<^verbatim>\<open>search\<close> and that of the
  blocks throws: the lexical result is empty, and the response holds the two records the
  vector search finds.
\<close>

theorem empty_lexical_result_retries_as_vector_witness:
  "lexical_results env_without_keyword_search [''k'']
      (searchFilter_of (no_args\<lparr>query_type := Some ''lexical'', keywords_arg := Some [''k'']\<rparr>)) []
    = ([], [TextCall ''blocks'' ''search'' [''k'']
              \<lparr>opt_limit = Some 10, opt_key_starts_with = None, opt_exclude_key_starts_with = None\<rparr>])
   \<and> (\<exists>r. fst (execute plugin_without_keyword_search
                  (no_args\<lparr>query_type := Some ''lexical'', keywords_arg := Some [''k'']\<rparr>) []) = Inr r
          \<and> Some (results r)
              = results_of (execute plugin_without_keyword_search
                  (vector_retry (no_args\<lparr>query_type := Some ''lexical'', keywords_arg := Some [''k'']\<rparr>)
                     [''k''])
                  [TextCall ''blocks'' ''search'' [''k'']
                     \<lparr>opt_limit = Some 10, opt_key_starts_with = None,
                      opt_exclude_key_starts_with = None\<rparr>])
          \<and> result_scores (results r) = [9/10, 8/10])"
proof -
  let ?e = "env_without_keyword_search"
  let ?p = "plugin_without_keyword_search"
  let ?a = "no_args\<lparr>query_type := Some ''lexical'', keywords_arg := Some [''k'']\<rparr>"
  let ?w1 = "[TextCall ''blocks'' ''search'' [''k'']
               \<lparr>opt_limit = Some 10, opt_key_starts_with = None, opt_exclude_key_starts_with = None\<rparr>]"
  have no_match: "lexical_results ?e [''k''] (searchFilter_of ?a) [] = ([], ?w1)"
    by (simp add: run_defs)
  have "\<exists>r r' w'. execute ?p ?a [] = (Inr r, w')
           \<and> performVectorSearch ?e [''k''] (searchFilter_of ?a) ?w1 = (fst (route ?e ?a []), w')
           \<and> execute ?p (vector_retry ?a [''k'']) ?w1 = (Inr r', w')
           \<and> results r = results r' \<and> count r = count r'
           \<and> total_before_limit r = total_before_limit r'"
    by (rule empty_lexical_result_retries_as_vector [OF _ _ _ _ no_match])
       (simp_all add: no_args_def plugin_without_keyword_search_def mode_of_def query_type_of_def)
  then obtain r r' w' where
    r: "execute ?p ?a [] = (Inr r, w')" "execute ?p (vector_retry ?a [''k'']) ?w1 = (Inr r', w')"
       "results r = results r'"
    by blast
  have "map_option result_scores (results_of (execute ?p ?a [])) = Some [9/10, 8/10]"
    by (simp add: run_defs)
  with r have "result_scores (results r) = [9/10, 8/10]"
    by (simp add: results_of_def)
  with r no_match show ?thesis by (simp add: results_of_def)
qed

section \<open>C8: the operation \<open>nearest_to\<close>\<close>

text \<open>
  C8, as amended. C8 says that for \<^verbatim>\<open>nearest_to\<close> an entity is resolved by key first and
  that \<^verbatim>\<open>nearest\<close> with the supplied vector is the fallback when it cannot be resolved.
  Lines 322 to 332 resolve nothing (the comment there: for now, fall back to nearest):
  \<^verbatim>\<open>nearest_to\<close> does exactly what \<^verbatim>\<open>nearest\<close> does with the supplied vector, whether
  or not an entity could be resolved.
\<close>

theorem nearest_to_is_nearest:
  "performDirectVectorSearch e vec ''nearest_to'' searchFilter w
   = performDirectVectorSearch e vec ''nearest'' searchFilter w"
  by (simp add: performDirectVectorSearch_def direct_vector_try_def)

text \<open>
  C8 as stated fails: on a host whose \<^verbatim>\<open>get\<close> resolves every key, the only call of a
  \<^verbatim>\<open>nearest_to\<close> search is \<^verbatim>\<open>nearest\<close> with the supplied vector; \<^verbatim>\<open>get\<close> is not
  called.
\<close>

theorem nearest_to_resolves_no_entity:
  "performDirectVectorSearch
     \<lparr>smart_sources = Some (recording_collection ''sources'' [scored ''a'' (9/10)]),
      smart_blocks = Some (recording_collection ''blocks'' [])\<rparr>
     [1/10, 2/10] ''nearest_to''
     \<lparr>limit = Some 10, key_starts_with = None, exclude_key_starts_with = None,
      collection = Some ''sources''\<rparr> []
   = ([with_prop ''collection_type'' (JStr ''source'') (scored ''a'' (9/10))],
      [VectorCall ''sources'' ''nearest'' [1/10, 2/10]
         \<lparr>opt_limit = Some 10, opt_key_starts_with = None, opt_exclude_key_starts_with = None\<rparr>])"
  by (simp add: run_defs)

section \<open>C9: a limit above the maximum\<close>

lemma searchFilter_of_limit:
  "filter_arg a = Some flt \<Longrightarrow> limit flt = Some l \<Longrightarrow> limit (searchFilter_of a) = Some l"
  by (simp add: searchFilter_of_def filter_of_def make_searchFilter_def)

text \<open>
  C9, as amended. C9 says that a request whose limit is above \<open>50\<close> is rejected with a
  validation error before anything is asked of the collections. The maximum of \<open>50\<close> is
  declared in the input schema (line 76) and \<^verbatim>\<open>execute\<close> never tests it. What holds: in
  a ready environment a request whose limit is above \<open>50\<close> is served like any other; no
  error is raised, the search runs, the limit is echoed as given and the final slice uses it
  as given.
\<close>

theorem limit_above_maximum_is_used_as_given:
  assumes ready: "env p = Some e"
    and given: "filter_arg a = Some flt" "limit flt = Some l"
    and above: "50 < l"
  shows "\<exists>r. execute p a w = (Inr r, snd (route e a w))
           \<and> limit (sp_filter (search_params r)) = Some l
           \<and> results r = map formatResult
                (slice0 (apply_statistical_filter (fst (route e a w))) (Some l))"
  using execute_ready [OF ready, of a w] searchFilter_of_limit [OF given] by auto

text \<open>The theorem at a vector search with limit \<open>51\<close>.\<close>

theorem limit_above_maximum_is_used_as_given_witness:
  "\<exists>r. execute (recording_plugin [scored ''a'' (9/10)] [scored ''b'' (8/10)])
          (no_args\<lparr>hypotheticals := Some [''q''],
                   filter_arg := Some (no_filter\<lparr>limit := Some 51\<rparr>)\<rparr>) []
        = (Inr r,
           [TextCall ''sources'' ''lookup'' [''q'']
              \<lparr>opt_limit = None, opt_key_starts_with = None, opt_exclude_key_starts_with = None\<rparr>,
            TextCall ''blocks'' ''lookup'' [''q'']
              \<lparr>opt_limit = None, opt_key_starts_with = None, opt_exclude_key_starts_with = None\<rparr>])
      \<and> limit (sp_filter (search_params r)) = Some 51
      \<and> result_scores (results r) = [9/10, 8/10]"
proof -
  let ?p = "recording_plugin [scored ''a'' (9/10)] [scored ''b'' (8/10)]"
  let ?e = "\<lparr>smart_sources = Some (recording_collection ''sources'' [scored ''a'' (9/10)]),
             smart_blocks = Some (recording_collection ''blocks'' [scored ''b'' (8/10)])\<rparr>"
  let ?a = "no_args\<lparr>hypotheticals := Some [''q''],
                   filter_arg := Some (no_filter\<lparr>limit := Some 51\<rparr>)\<rparr>"
  have "\<exists>r. execute ?p ?a [] = (Inr r, snd (route ?e ?a []))
           \<and> limit (sp_filter (search_params r)) = Some 51
           \<and> results r = map formatResult
                (slice0 (apply_statistical_filter (fst (route ?e ?a []))) (Some 51))"
    by (rule limit_above_maximum_is_used_as_given [where flt = "no_filter\<lparr>limit := Some 51\<rparr>"])
       (simp_all add: recording_plugin_def no_args_def)
  then obtain r where r: "execute ?p ?a [] = (Inr r, snd (route ?e ?a []))"
      "limit (sp_filter (search_params r)) = Some 51"
      "results r = map formatResult
                (slice0 (apply_statistical_filter (fst (route ?e ?a []))) (Some 51))"
    by blast
  have "result_scores (results r) = [9/10, 8/10]"
    unfolding r(3) by (simp add: run_defs)
  moreover have "snd (route ?e ?a []) =
           [TextCall ''sources'' ''lookup'' [''q'']
              \<lparr>opt_limit = None, opt_key_starts_with = None, opt_exclude_key_starts_with = None\<rparr>,
            TextCall ''blocks'' ''lookup'' [''q'']
              \<lparr>opt_limit = None, opt_key_starts_with = None, opt_exclude_key_starts_with = None\<rparr>]"
    by (simp add: run_defs)
  ultimately show ?thesis using r by auto
qed

text \<open>
  C9 as stated fails: with limit \<open>51\<close> the two collections are asked and their two
  results are returned; no error is raised.
\<close>

theorem limit_above_maximum_is_not_rejected:
  "map_option result_scores
     (results_of (execute (recording_plugin [scored ''a'' (9/10)] [scored ''b'' (8/10)])
        (no_args\<lparr>hypotheticals := Some [''q''],
                 filter_arg := Some (no_filter\<lparr>limit := Some 51\<rparr>)\<rparr>) []))
   = Some [9/10, 8/10]
   \<and> snd (execute (recording_plugin [scored ''a'' (9/10)] [scored ''b'' (8/10)])
        (no_args\<lparr>hypotheticals := Some [''q''],
                 filter_arg := Some (no_filter\<lparr>limit := Some 51\<rparr>)\<rparr>) [])
     = [TextCall ''sources'' ''lookup'' [''q'']
          \<lparr>opt_limit = None, opt_key_starts_with = None, opt_exclude_key_starts_with = None\<rparr>,
        TextCall ''blocks'' ''lookup'' [''q'']
          \<lparr>opt_limit = None, opt_key_starts_with = None, opt_exclude_key_starts_with = None\<rparr>]"
  by (simp add: run_defs)

section \<open>C10: the two counts of a response\<close>



end
